theory Spec2Isabelle
  imports Main
begin

section \<open>The heap-state field list of \<open>src/coreclr/gc/gc_typefields.h\<close>\<close>

text \<open>
  The header is a list of macro invocations, one per line, cut by two nested
  \<open>#if ... #else ... #endif\<close> blocks of the C preprocessor. The including file defines
  the four macros \<open>DEFINE_FIELD\<close>, \<open>DEFINE_DPTR_FIELD\<close>, \<open>DEFINE_ARRAY_FIELD\<close> and
  \<open>DEFINE_MISSING_FIELD\<close>; what the header itself fixes is which invocations survive
  preprocessing, and in which order. The embedding keeps the header as data (its lines,
  with the conditional blocks as a tree) and models conditional inclusion as a function
  from the set of defined configuration macros to the surviving invocations.
\<close>

subsection \<open>Data model\<close>

type_synonym ident = string

text \<open>The three configuration macros the header tests with \<open>defined(...)\<close>.\<close>

datatype macro = ALL_FIELDS | BACKGROUND_GC | USE_REGIONS

text \<open>
  A build configuration says, for each of the three macros, whether it is defined:
  \<open>all_fields\<close> is the full-schema switch, \<open>background_gc\<close> the background-collection
  switch and \<open>use_regions\<close> the region-based-heap switch.
\<close>

record config =
  all_fields :: bool
  background_gc :: bool
  use_regions :: bool

text \<open>
  One macro invocation of the header: a scalar field (name, type), a field that holds a
  pointer to another described structure (name, structure), an array field (name, element
  type, the macro naming the extent), or the placeholder, which carries no argument.
\<close>

datatype field_entry =
    DEFINE_FIELD ident ident
  | DEFINE_DPTR_FIELD ident ident
  | DEFINE_ARRAY_FIELD ident ident ident
  | DEFINE_MISSING_FIELD

text \<open>The controlling expression of an \<open>#if\<close>: \<open>defined(M)\<close>, \<open>!e\<close> and \<open>e || e\<close>.\<close>

datatype pp_cond =
    Defined macro
  | PNot pp_cond
  | POr pp_cond pp_cond

text \<open>
  A line of the header is a macro invocation, or a block
  \<open>#if c\<close> \<open>lines\<close> \<open>#else\<close> \<open>lines\<close> \<open>#endif\<close>.
\<close>

datatype pp_line =
    Entry field_entry
  | IfElse pp_cond "pp_line list" "pp_line list"

subsection \<open>Conditional inclusion\<close>

fun defined :: "config \<Rightarrow> macro \<Rightarrow> bool" where
  "defined cfg ALL_FIELDS = all_fields cfg"
| "defined cfg BACKGROUND_GC = background_gc cfg"
| "defined cfg USE_REGIONS = use_regions cfg"

fun holds :: "config \<Rightarrow> pp_cond \<Rightarrow> bool" where
  "holds cfg (Defined m) = defined cfg m"
| "holds cfg (PNot c) = (\<not> holds cfg c)"
| "holds cfg (POr c d) = (holds cfg c \<or> holds cfg d)"

text \<open>
  The preprocessor keeps an invocation as it is, and of a conditional block exactly one
  arm, the first when the condition holds and the second otherwise, itself preprocessed.
\<close>

fun expand :: "config \<Rightarrow> pp_line \<Rightarrow> field_entry list" where
  "expand cfg (Entry e) = [e]"
| "expand cfg (IfElse c th el) =
     (if holds cfg c then concat (map (expand cfg) th) else concat (map (expand cfg) el))"

definition preprocess :: "config \<Rightarrow> pp_line list \<Rightarrow> field_entry list" where
  "preprocess cfg ls = concat (map (expand cfg) ls)"

subsection \<open>The header\<close>

text \<open>Lines 1 to 12: the invocations outside every conditional block.\<close>

definition unconditional_fields :: "pp_line list" where
  "unconditional_fields =
    [Entry (DEFINE_FIELD ''alloc_allocated'' ''uint8_t*''),
     Entry (DEFINE_DPTR_FIELD ''ephemeral_heap_segment'' ''dac_heap_segment''),
     Entry (DEFINE_DPTR_FIELD ''finalize_queue'' ''dac_finalize_queue''),
     Entry (DEFINE_FIELD ''oom_info'' ''oom_history''),
     Entry (DEFINE_ARRAY_FIELD ''interesting_data_per_heap'' ''size_t'' ''NUM_GC_DATA_POINTS''),
     Entry (DEFINE_ARRAY_FIELD ''compact_reasons_per_heap'' ''size_t'' ''MAX_COMPACT_REASONS_COUNT''),
     Entry (DEFINE_ARRAY_FIELD ''expand_mechanisms_per_heap'' ''size_t'' ''MAX_EXPAND_MECHANISMS_COUNT''),
     Entry (DEFINE_ARRAY_FIELD ''interesting_mechanism_bits_per_heap'' ''size_t''
        ''MAX_GC_MECHANISM_BITS_COUNT''),
     Entry (DEFINE_FIELD ''internal_root_array'' ''uint8_t*''),
     Entry (DEFINE_FIELD ''internal_root_array_index'' ''size_t''),
     Entry (DEFINE_FIELD ''heap_analyze_success'' ''BOOL''),
     Entry (DEFINE_FIELD ''card_table'' ''uint32_t*'')]"

text \<open>
  Lines 18 to 24: the inner block,
  \<open>#if defined(ALL_FIELDS) || !defined(USE_REGIONS)\<close>, with its two arms.
\<close>

definition region_guard :: pp_cond where
  "region_guard = POr (Defined ALL_FIELDS) (PNot (Defined USE_REGIONS))"

definition region_fields :: "pp_line list" where
  "region_fields =
    [Entry (DEFINE_DPTR_FIELD ''saved_sweep_ephemeral_seg'' ''dac_heap_segment''),
     Entry (DEFINE_FIELD ''saved_sweep_ephemeral_start'' ''uint8_t*'')]"

definition region_missing :: "pp_line list" where
  "region_missing = [Entry DEFINE_MISSING_FIELD, Entry DEFINE_MISSING_FIELD]"

definition region_block :: pp_line where
  "region_block = IfElse region_guard region_fields region_missing"

text \<open>
  Lines 13 to 32: the outer block,
  \<open>#if defined(ALL_FIELDS) || defined(BACKGROUND_GC)\<close>; its first arm ends with the inner
  block.
\<close>

definition background_guard :: pp_cond where
  "background_guard = POr (Defined ALL_FIELDS) (Defined BACKGROUND_GC)"

definition background_fields :: "pp_line list" where
  "background_fields =
    [Entry (DEFINE_FIELD ''mark_array'' ''uint32_t*''),
     Entry (DEFINE_FIELD ''next_sweep_obj'' ''uint8_t*''),
     Entry (DEFINE_FIELD ''background_saved_lowest_address'' ''uint8_t*''),
     Entry (DEFINE_FIELD ''background_saved_highest_address'' ''uint8_t*''),
     region_block]"

definition background_missing :: "pp_line list" where
  "background_missing =
    [Entry DEFINE_MISSING_FIELD, Entry DEFINE_MISSING_FIELD, Entry DEFINE_MISSING_FIELD,
     Entry DEFINE_MISSING_FIELD, Entry DEFINE_MISSING_FIELD, Entry DEFINE_MISSING_FIELD]"

definition background_block :: pp_line where
  "background_block = IfElse background_guard background_fields background_missing"

text \<open>The whole file, in source order.\<close>

definition gc_typefields :: "pp_line list" where
  "gc_typefields = unconditional_fields @ [background_block]"

text \<open>The table a build with configuration \<open>cfg\<close> gets: the header, preprocessed.\<close>

definition field_table :: "config \<Rightarrow> field_entry list" where
  "field_table cfg = preprocess cfg gc_typefields"

subsection \<open>Reading the header's structure\<close>

text \<open>
  The field declarations of the header in source order: every invocation that stands
  outside a block or in the \<open>#if\<close> arm of one. The \<open>#else\<close> arms hold no declaration of
  their own (in this header, only placeholders).
\<close>

fun declared :: "pp_line \<Rightarrow> field_entry list" where
  "declared (Entry e) = [e]"
| "declared (IfElse c th el) = concat (map declared th)"

definition declarations :: "field_entry list" where
  "declarations = concat (map declared gc_typefields)"

text \<open>Every controlling expression of the header, outer blocks first.\<close>

fun guards :: "pp_line \<Rightarrow> pp_cond list" where
  "guards (Entry e) = []"
| "guards (IfElse c th el) = c # concat (map guards th) @ concat (map guards el)"

fun all_fields_or :: "pp_cond \<Rightarrow> bool" where
  "all_fields_or (POr (Defined ALL_FIELDS) c) = True"
| "all_fields_or c = False"

text \<open>The name a descriptor carries; the placeholder has none.\<close>

fun field_name :: "field_entry \<Rightarrow> ident option" where
  "field_name (DEFINE_FIELD n t) = Some n"
| "field_name (DEFINE_DPTR_FIELD n t) = Some n"
| "field_name (DEFINE_ARRAY_FIELD n t k) = Some n"
| "field_name DEFINE_MISSING_FIELD = None"

fun is_real :: "field_entry \<Rightarrow> bool" where
  "is_real DEFINE_MISSING_FIELD = False"
| "is_real e = True"

text \<open>
  The static slot count of a line: one for an invocation, and for a block the count of
  its \<open>#if\<close> arm. A line is balanced when, in every block at every depth, the \<open>#else\<close>
  arm has the same static slot count as the \<open>#if\<close> arm.
\<close>

fun slots :: "pp_line \<Rightarrow> nat" where
  "slots (Entry e) = 1"
| "slots (IfElse c th el) = sum_list (map slots th)"

fun balanced :: "pp_line \<Rightarrow> bool" where
  "balanced (Entry e) = True"
| "balanced (IfElse c th el) =
     (list_all balanced th \<and> list_all balanced el \<and>
      sum_list (map slots el) = sum_list (map slots th))"

subsection \<open>The assembler of the specification\<close>

text \<open>
  The specification describes the table as the result of walking the field declarations in
  source order, each tagged with the predicate under which it is real, and emitting for
  each one descriptor: the real one when the predicate holds, a placeholder otherwise.
  \<open>guarded\<close> reads the declarations off the header, each with the conditions of the blocks
  that enclose it (outermost first); \<open>emit\<close> and \<open>assemble\<close> follow the specification's
  words. That the preprocessed header is this table is a theorem below, not a definition.
\<close>

fun guarded :: "pp_cond list \<Rightarrow> pp_line \<Rightarrow> (pp_cond list \<times> field_entry) list" where
  "guarded gs (Entry e) = [(gs, e)]"
| "guarded gs (IfElse c th el) = concat (map (guarded (gs @ [c])) th)"

definition guarded_declarations :: "(pp_cond list \<times> field_entry) list" where
  "guarded_declarations = concat (map (guarded []) gc_typefields)"

fun emit :: "config \<Rightarrow> pp_cond list \<times> field_entry \<Rightarrow> field_entry" where
  "emit cfg (gs, e) = (if list_all (holds cfg) gs then e else DEFINE_MISSING_FIELD)"

definition assemble :: "config \<Rightarrow> field_entry list" where
  "assemble cfg = map (emit cfg) guarded_declarations"

section \<open>Properties\<close>

subsection \<open>The table, computed\<close>

lemmas header_defs =
  gc_typefields_def unconditional_fields_def
  background_block_def background_guard_def background_fields_def background_missing_def
  region_block_def region_guard_def region_fields_def region_missing_def

lemma field_table_unfold:
  "field_table cfg =
    [DEFINE_FIELD ''alloc_allocated'' ''uint8_t*'',
     DEFINE_DPTR_FIELD ''ephemeral_heap_segment'' ''dac_heap_segment'',
     DEFINE_DPTR_FIELD ''finalize_queue'' ''dac_finalize_queue'',
     DEFINE_FIELD ''oom_info'' ''oom_history'',
     DEFINE_ARRAY_FIELD ''interesting_data_per_heap'' ''size_t'' ''NUM_GC_DATA_POINTS'',
     DEFINE_ARRAY_FIELD ''compact_reasons_per_heap'' ''size_t'' ''MAX_COMPACT_REASONS_COUNT'',
     DEFINE_ARRAY_FIELD ''expand_mechanisms_per_heap'' ''size_t'' ''MAX_EXPAND_MECHANISMS_COUNT'',
     DEFINE_ARRAY_FIELD ''interesting_mechanism_bits_per_heap'' ''size_t''
        ''MAX_GC_MECHANISM_BITS_COUNT'',
     DEFINE_FIELD ''internal_root_array'' ''uint8_t*'',
     DEFINE_FIELD ''internal_root_array_index'' ''size_t'',
     DEFINE_FIELD ''heap_analyze_success'' ''BOOL'',
     DEFINE_FIELD ''card_table'' ''uint32_t*''] @
    (if all_fields cfg \<or> background_gc cfg then
       [DEFINE_FIELD ''mark_array'' ''uint32_t*'',
        DEFINE_FIELD ''next_sweep_obj'' ''uint8_t*'',
        DEFINE_FIELD ''background_saved_lowest_address'' ''uint8_t*'',
        DEFINE_FIELD ''background_saved_highest_address'' ''uint8_t*''] @
       (if all_fields cfg \<or> \<not> use_regions cfg then
          [DEFINE_DPTR_FIELD ''saved_sweep_ephemeral_seg'' ''dac_heap_segment'',
           DEFINE_FIELD ''saved_sweep_ephemeral_start'' ''uint8_t*'']
        else [DEFINE_MISSING_FIELD, DEFINE_MISSING_FIELD])
     else [DEFINE_MISSING_FIELD, DEFINE_MISSING_FIELD, DEFINE_MISSING_FIELD,
           DEFINE_MISSING_FIELD, DEFINE_MISSING_FIELD, DEFINE_MISSING_FIELD])"
  by (simp add: field_table_def preprocess_def header_defs)

lemma replicate_missing:
  "replicate 6 DEFINE_MISSING_FIELD =
     [DEFINE_MISSING_FIELD, DEFINE_MISSING_FIELD, DEFINE_MISSING_FIELD,
      DEFINE_MISSING_FIELD, DEFINE_MISSING_FIELD, DEFINE_MISSING_FIELD]"
  "replicate 2 DEFINE_MISSING_FIELD = [DEFINE_MISSING_FIELD, DEFINE_MISSING_FIELD]"
  by (simp_all add: numeral_eq_Suc)

lemma length_field_table: "length (field_table cfg) = 18"
  by (simp add: field_table_unfold)

lemma declarations_unfold:
  "declarations =
    [DEFINE_FIELD ''alloc_allocated'' ''uint8_t*'',
     DEFINE_DPTR_FIELD ''ephemeral_heap_segment'' ''dac_heap_segment'',
     DEFINE_DPTR_FIELD ''finalize_queue'' ''dac_finalize_queue'',
     DEFINE_FIELD ''oom_info'' ''oom_history'',
     DEFINE_ARRAY_FIELD ''interesting_data_per_heap'' ''size_t'' ''NUM_GC_DATA_POINTS'',
     DEFINE_ARRAY_FIELD ''compact_reasons_per_heap'' ''size_t'' ''MAX_COMPACT_REASONS_COUNT'',
     DEFINE_ARRAY_FIELD ''expand_mechanisms_per_heap'' ''size_t'' ''MAX_EXPAND_MECHANISMS_COUNT'',
     DEFINE_ARRAY_FIELD ''interesting_mechanism_bits_per_heap'' ''size_t''
        ''MAX_GC_MECHANISM_BITS_COUNT'',
     DEFINE_FIELD ''internal_root_array'' ''uint8_t*'',
     DEFINE_FIELD ''internal_root_array_index'' ''size_t'',
     DEFINE_FIELD ''heap_analyze_success'' ''BOOL'',
     DEFINE_FIELD ''card_table'' ''uint32_t*'',
     DEFINE_FIELD ''mark_array'' ''uint32_t*'',
     DEFINE_FIELD ''next_sweep_obj'' ''uint8_t*'',
     DEFINE_FIELD ''background_saved_lowest_address'' ''uint8_t*'',
     DEFINE_FIELD ''background_saved_highest_address'' ''uint8_t*'',
     DEFINE_DPTR_FIELD ''saved_sweep_ephemeral_seg'' ''dac_heap_segment'',
     DEFINE_FIELD ''saved_sweep_ephemeral_start'' ''uint8_t*'']"
  by (simp add: declarations_def header_defs)

lemma declared_guarded: "map snd (guarded gs l) = declared l"
proof (induction l arbitrary: gs)
  case (Entry e)
  show ?case by simp
next
  case (IfElse c th el)
  have "map (\<lambda>l. map snd (guarded (gs @ [c]) l)) th = map declared th"
    by (rule map_cong) (simp_all add: IfElse.IH(1))
  then have "concat (map (\<lambda>l. map snd (guarded (gs @ [c]) l)) th) = concat (map declared th)"
    by (rule arg_cong)
  then show ?case by (simp add: map_concat comp_def)
qed

lemma declarations_guarded: "map snd guarded_declarations = declarations"
  by (simp add: guarded_declarations_def declarations_def map_concat comp_def declared_guarded)

lemma field_table_assemble: "field_table cfg = assemble cfg"
  by (simp add: field_table_unfold assemble_def guarded_declarations_def header_defs)

lemma distinct_names: "distinct (map field_name declarations)"
  by (simp add: declarations_unfold)

lemma real_declarations: "list_all is_real declarations"
  by (simp add: declarations_unfold)

lemma emit_name: "field_name (emit cfg d) = Some n \<Longrightarrow> field_name (snd d) = Some n"
  by (cases d) (simp split: if_splits)

text \<open>
  Balance is what makes the count of surviving invocations a constant of the header:
  a balanced line expands to its static slot count under every configuration.
\<close>

lemma concat_expand_length:
  assumes "list_all balanced ls"
    and "\<And>l. l \<in> set ls \<Longrightarrow> balanced l \<Longrightarrow> length (expand cfg l) = slots l"
  shows "length (concat (map (expand cfg) ls)) = sum_list (map slots ls)"
  using assms by (induction ls) simp_all

lemma balanced_length: "balanced l \<Longrightarrow> length (expand cfg l) = slots l"
proof (induction cfg l rule: expand.induct)
  case (1 cfg e)
  show ?case by simp
next
  case (2 cfg c th el)
  from "2.prems" have bal: "list_all balanced th" "list_all balanced el"
    and same: "sum_list (map slots el) = sum_list (map slots th)"
    by simp_all
  show ?case
  proof (cases "holds cfg c")
    case True
    with "2.IH"(1) bal(1) show ?thesis
      by (simp add: concat_expand_length)
  next
    case False
    with "2.IH"(2) bal(2) same show ?thesis
      by (simp add: concat_expand_length)
  qed
qed

lemma balanced_header: "list_all balanced gc_typefields"
  by (simp add: header_defs)

subsection \<open>The claims\<close>

text \<open>
  C1 (ordinal invariance). The table has the same length under every configuration of the
  three switches, and that length is 18: the 12 unconditional fields, 4 background slots
  and 2 region/legacy slots.
\<close>

theorem ordinal_invariance:
  "length (field_table cfg) = length (field_table cfg') \<and>
   length (field_table cfg) = 18 \<and>
   length (field_table cfg) = length (preprocess cfg unconditional_fields) + 4 + 2 \<and>
   length (preprocess cfg unconditional_fields) = 12"
  by (simp add: length_field_table preprocess_def unconditional_fields_def)

text \<open>
  C2, as the specification states it: with all three macros defined the table is as long
  as with \<open>USE_REGIONS\<close> undefined, and slots 16 and 17 (\<open>saved_sweep_ephemeral_seg\<close>,
  \<open>saved_sweep_ephemeral_start\<close>) are placeholders. The header does otherwise: the inner
  guard is \<open>defined(ALL_FIELDS) || !defined(USE_REGIONS)\<close>, so \<open>ALL_FIELDS\<close> keeps both
  fields real.
\<close>

theorem region_placeholders_counterexample:
  "\<not> (length (field_table \<lparr>all_fields = True, background_gc = True, use_regions = True\<rparr>) =
        length (field_table \<lparr>all_fields = True, background_gc = True, use_regions = False\<rparr>) \<and>
      field_table \<lparr>all_fields = True, background_gc = True, use_regions = True\<rparr> ! 16 =
        DEFINE_MISSING_FIELD \<and>
      field_table \<lparr>all_fields = True, background_gc = True, use_regions = True\<rparr> ! 17 =
        DEFINE_MISSING_FIELD)"
  by (simp add: field_table_unfold)

text \<open>
  C2, amended. With all three macros defined the table is as long as with \<open>USE_REGIONS\<close>
  undefined, and the two region-dependent fields are real descriptors, the same as with
  \<open>USE_REGIONS\<close> undefined. They are placeholders, at the same slot count, when
  \<open>ALL_FIELDS\<close> is undefined while \<open>BACKGROUND_GC\<close> and \<open>USE_REGIONS\<close> are defined.
\<close>

theorem region_fields_full_schema:
  "length (field_table \<lparr>all_fields = True, background_gc = True, use_regions = True\<rparr>) =
     length (field_table \<lparr>all_fields = True, background_gc = True, use_regions = False\<rparr>) \<and>
   field_table \<lparr>all_fields = True, background_gc = True, use_regions = True\<rparr> ! 16 =
     DEFINE_DPTR_FIELD ''saved_sweep_ephemeral_seg'' ''dac_heap_segment'' \<and>
   field_table \<lparr>all_fields = True, background_gc = True, use_regions = True\<rparr> ! 17 =
     DEFINE_FIELD ''saved_sweep_ephemeral_start'' ''uint8_t*'' \<and>
   field_table \<lparr>all_fields = True, background_gc = True, use_regions = True\<rparr> =
     field_table \<lparr>all_fields = True, background_gc = True, use_regions = False\<rparr> \<and>
   length (field_table \<lparr>all_fields = False, background_gc = True, use_regions = True\<rparr>) =
     length (field_table \<lparr>all_fields = True, background_gc = True, use_regions = False\<rparr>) \<and>
   field_table \<lparr>all_fields = False, background_gc = True, use_regions = True\<rparr> ! 16 =
     DEFINE_MISSING_FIELD \<and>
   field_table \<lparr>all_fields = False, background_gc = True, use_regions = True\<rparr> ! 17 =
     DEFINE_MISSING_FIELD"
  by (simp add: field_table_unfold)

text \<open>
  C3, as the specification states it, at \<open>USE_REGIONS\<close> undefined: with \<open>ALL_FIELDS\<close>
  defined and \<open>BACKGROUND_GC\<close> undefined, slots 12 to 17 are placeholders and the table is
  as long as with \<open>BACKGROUND_GC\<close> defined. The header does otherwise: the outer guard is
  \<open>defined(ALL_FIELDS) || defined(BACKGROUND_GC)\<close>.
\<close>

theorem background_placeholders_counterexample:
  "\<not> (field_table \<lparr>all_fields = True, background_gc = False, use_regions = False\<rparr> ! 12 =
        DEFINE_MISSING_FIELD \<and>
      field_table \<lparr>all_fields = True, background_gc = False, use_regions = False\<rparr> ! 13 =
        DEFINE_MISSING_FIELD \<and>
      field_table \<lparr>all_fields = True, background_gc = False, use_regions = False\<rparr> ! 14 =
        DEFINE_MISSING_FIELD \<and>
      field_table \<lparr>all_fields = True, background_gc = False, use_regions = False\<rparr> ! 15 =
        DEFINE_MISSING_FIELD \<and>
      field_table \<lparr>all_fields = True, background_gc = False, use_regions = False\<rparr> ! 16 =
        DEFINE_MISSING_FIELD \<and>
      field_table \<lparr>all_fields = True, background_gc = False, use_regions = False\<rparr> ! 17 =
        DEFINE_MISSING_FIELD \<and>
      length (field_table \<lparr>all_fields = True, background_gc = False, use_regions = False\<rparr>) =
        length (field_table \<lparr>all_fields = True, background_gc = True, use_regions = False\<rparr>))"
  by (simp add: field_table_unfold)

text \<open>
  C3, amended. With \<open>ALL_FIELDS\<close> defined and \<open>BACKGROUND_GC\<close> undefined, whatever
  \<open>USE_REGIONS\<close> is, the four background-specific fields and the two region-dependent
  fields are all real descriptors, and the table is as long as with \<open>BACKGROUND_GC\<close>
  defined. The six slots are all placeholders, at the same slot count, when \<open>ALL_FIELDS\<close>
  and \<open>BACKGROUND_GC\<close> are both undefined.
\<close>

theorem background_fields_full_schema:
  "drop 12 (field_table \<lparr>all_fields = True, background_gc = False, use_regions = r\<rparr>) =
     [DEFINE_FIELD ''mark_array'' ''uint32_t*'',
      DEFINE_FIELD ''next_sweep_obj'' ''uint8_t*'',
      DEFINE_FIELD ''background_saved_lowest_address'' ''uint8_t*'',
      DEFINE_FIELD ''background_saved_highest_address'' ''uint8_t*'',
      DEFINE_DPTR_FIELD ''saved_sweep_ephemeral_seg'' ''dac_heap_segment'',
      DEFINE_FIELD ''saved_sweep_ephemeral_start'' ''uint8_t*''] \<and>
   length (field_table \<lparr>all_fields = True, background_gc = False, use_regions = r\<rparr>) =
     length (field_table \<lparr>all_fields = a, background_gc = True, use_regions = r'\<rparr>) \<and>
   drop 12 (field_table \<lparr>all_fields = False, background_gc = False, use_regions = r\<rparr>) =
     replicate 6 DEFINE_MISSING_FIELD \<and>
   length (field_table \<lparr>all_fields = False, background_gc = False, use_regions = r\<rparr>) =
     length (field_table \<lparr>all_fields = a, background_gc = True, use_regions = r'\<rparr>)"
  by (simp add: length_field_table) (simp add: field_table_unfold replicate_missing)

text \<open>
  C4 (nested-conditional slot balance). Every block of the header, at every depth, has
  arms of the same slot count. The outer block, when suppressed, emits 6 placeholders, and
  its enabled arm emits 6 descriptors under every configuration: the 4 background fields
  followed by the 2 slots of the inner block. The inner block, when suppressed, emits 2
  placeholders, and its enabled arm emits its 2 real fields.
\<close>

theorem nested_slot_balance:
  "list_all balanced gc_typefields \<and>
   expand cfg background_block =
     (if holds cfg background_guard then preprocess cfg background_fields
      else replicate 6 DEFINE_MISSING_FIELD) \<and>
   length (preprocess cfg' background_fields) = 6 \<and>
   preprocess cfg' background_fields =
     [DEFINE_FIELD ''mark_array'' ''uint32_t*'',
      DEFINE_FIELD ''next_sweep_obj'' ''uint8_t*'',
      DEFINE_FIELD ''background_saved_lowest_address'' ''uint8_t*'',
      DEFINE_FIELD ''background_saved_highest_address'' ''uint8_t*''] @
     expand cfg' region_block \<and>
   length (expand cfg' region_block) = 2 \<and>
   expand cfg region_block =
     (if holds cfg region_guard then preprocess cfg region_fields
      else replicate 2 DEFINE_MISSING_FIELD) \<and>
   preprocess cfg' region_fields =
     [DEFINE_DPTR_FIELD ''saved_sweep_ephemeral_seg'' ''dac_heap_segment'',
      DEFINE_FIELD ''saved_sweep_ephemeral_start'' ''uint8_t*'']"
  by (simp add: preprocess_def header_defs replicate_missing)

text \<open>
  C5 (placeholder completeness). Under every configuration the preprocessed header is the
  table of the specification's assembler: one descriptor per field declaration, in
  declaration order, the real descriptor when all the conditions guarding the declaration
  hold and a placeholder otherwise. So no declaration is left without a slot, and, the
  declarations being pairwise different real descriptors, none gets two.
\<close>

theorem placeholder_completeness:
  "field_table cfg = map (emit cfg) guarded_declarations \<and>
   length (field_table cfg) = length guarded_declarations \<and>
   distinct (map snd guarded_declarations) \<and>
   list_all is_real (map snd guarded_declarations)"
proof -
  have "field_table cfg = map (emit cfg) guarded_declarations"
    using field_table_assemble [of cfg] by (simp add: assemble_def)
  moreover have "distinct (map snd guarded_declarations)"
    using distinct_names by (simp add: declarations_guarded distinct_map)
  moreover have "list_all is_real (map snd guarded_declarations)"
    using real_declarations by (simp add: declarations_guarded)
  ultimately show ?thesis by simp
qed

text \<open>
  C6 (positional identity). A field that is a real descriptor in the tables of two
  configurations stands at the same ordinal in both: a named descriptor at ordinal \<open>i\<close> of
  one table and a descriptor of the same name at ordinal \<open>j\<close> of the other give \<open>i = j\<close>.
\<close>

theorem positional_identity:
  assumes "i < length (field_table A)" and "j < length (field_table B)"
    and "field_name (field_table A ! i) = Some n"
    and "field_name (field_table B ! j) = Some n"
  shows "i = j"
proof -
  let ?ds = "guarded_declarations"
  have len: "length ?ds = 18"
    using length_field_table [of A] by (simp add: field_table_assemble assemble_def)
  have i: "i < length ?ds" and j: "j < length ?ds"
    using assms(1,2) by (simp_all add: len length_field_table)
  have "field_name (emit A (?ds ! i)) = Some n"
    using assms(3) i by (simp add: field_table_assemble assemble_def)
  then have ni: "field_name (declarations ! i) = Some n"
    using i by (simp add: emit_name declarations_guarded [symmetric])
  have "field_name (emit B (?ds ! j)) = Some n"
    using assms(4) j by (simp add: field_table_assemble assemble_def)
  then have nj: "field_name (declarations ! j) = Some n"
    using j by (simp add: emit_name declarations_guarded [symmetric])
  have li: "i < length (map field_name declarations)"
    and lj: "j < length (map field_name declarations)"
    using i j by (simp_all add: declarations_guarded [symmetric])
  have same: "map field_name declarations ! i = map field_name declarations ! j"
    using ni nj li lj by simp
  from distinct_names li lj
  have "(map field_name declarations ! i = map field_name declarations ! j) = (i = j)"
    by (rule nth_eq_iff_index_eq)
  with same show ?thesis by blast
qed

theorem positional_identity_witness:
  "16 < length (field_table \<lparr>all_fields = False, background_gc = True, use_regions = False\<rparr>) \<and>
   16 < length (field_table \<lparr>all_fields = True, background_gc = False, use_regions = True\<rparr>) \<and>
   field_name (field_table \<lparr>all_fields = False, background_gc = True, use_regions = False\<rparr> ! 16) =
     Some ''saved_sweep_ephemeral_seg'' \<and>
   field_name (field_table \<lparr>all_fields = True, background_gc = False, use_regions = True\<rparr> ! 16) =
     Some ''saved_sweep_ephemeral_seg'' \<and>
   (16::nat) = 16"
  using positional_identity
    [of 16 "\<lparr>all_fields = False, background_gc = True, use_regions = False\<rparr>"
        16 "\<lparr>all_fields = True, background_gc = False, use_regions = True\<rparr>"
        "''saved_sweep_ephemeral_seg''"]
  by (simp add: field_table_unfold)

text \<open>
  C7. With \<open>ALL_FIELDS\<close> and \<open>BACKGROUND_GC\<close> defined and \<open>USE_REGIONS\<close> undefined, slots 12
  to 15 are the four background-specific fields and slots 16 and 17 the two legacy-segment
  fields, all six as real descriptors.
\<close>

theorem background_segments_scenario:
  "drop 12 (field_table \<lparr>all_fields = True, background_gc = True, use_regions = False\<rparr>) =
     [DEFINE_FIELD ''mark_array'' ''uint32_t*'',
      DEFINE_FIELD ''next_sweep_obj'' ''uint8_t*'',
      DEFINE_FIELD ''background_saved_lowest_address'' ''uint8_t*'',
      DEFINE_FIELD ''background_saved_highest_address'' ''uint8_t*'',
      DEFINE_DPTR_FIELD ''saved_sweep_ephemeral_seg'' ''dac_heap_segment'',
      DEFINE_FIELD ''saved_sweep_ephemeral_start'' ''uint8_t*''] \<and>
   list_all is_real (field_table \<lparr>all_fields = True, background_gc = True, use_regions = False\<rparr>)"
  by (simp add: field_table_unfold)

text \<open>
  C8. With \<open>ALL_FIELDS\<close> defined the table does not depend on the other two switches: it
  is the list of the 18 field declarations, every slot a real descriptor and none a
  placeholder; and every controlling expression of the header has the form
  \<open>defined(ALL_FIELDS) || ...\<close>.
\<close>

theorem full_schema_all_real:
  assumes "all_fields cfg"
  shows "field_table cfg = declarations \<and>
    field_table cfg = field_table \<lparr>all_fields = True, background_gc = b, use_regions = r\<rparr> \<and>
    length (field_table cfg) = 18 \<and>
    list_all is_real (field_table cfg) \<and>
    DEFINE_MISSING_FIELD \<notin> set (field_table cfg) \<and>
    list_all all_fields_or (concat (map guards gc_typefields))"
proof -
  have eq: "field_table cfg = declarations"
    using assms by (simp add: field_table_unfold declarations_unfold)
  have "field_table \<lparr>all_fields = True, background_gc = b, use_regions = r\<rparr> = declarations"
    by (simp add: field_table_unfold declarations_unfold)
  moreover have "length declarations = 18" "list_all is_real declarations"
    "DEFINE_MISSING_FIELD \<notin> set declarations"
    by (simp_all add: declarations_unfold)
  moreover have "list_all all_fields_or (concat (map guards gc_typefields))"
    by (simp add: header_defs)
  ultimately show ?thesis using eq by simp
qed

theorem full_schema_all_real_witness:
  "all_fields \<lparr>all_fields = True, background_gc = False, use_regions = True\<rparr> \<and>
   field_table \<lparr>all_fields = True, background_gc = False, use_regions = True\<rparr> = declarations \<and>
   field_table \<lparr>all_fields = True, background_gc = False, use_regions = True\<rparr> =
     field_table \<lparr>all_fields = True, background_gc = True, use_regions = False\<rparr> \<and>
   DEFINE_MISSING_FIELD \<notin>
     set (field_table \<lparr>all_fields = True, background_gc = False, use_regions = True\<rparr>)"
proof -
  have h: "all_fields \<lparr>all_fields = True, background_gc = False, use_regions = True\<rparr>"
    by simp
  from full_schema_all_real [OF h, of True False] h show ?thesis
    by blast
qed

text \<open>
  C9 (unconditional prefix). Under every configuration ordinals 0 to 11 hold the same 12
  real descriptors, \<open>alloc_allocated\<close> to \<open>card_table\<close>, with the same names, kinds, types
  and extents in the same order; two configurations can differ only in slots 12 to 17.
\<close>

theorem unconditional_prefix:
  "take 12 (field_table cfg) =
    [DEFINE_FIELD ''alloc_allocated'' ''uint8_t*'',
     DEFINE_DPTR_FIELD ''ephemeral_heap_segment'' ''dac_heap_segment'',
     DEFINE_DPTR_FIELD ''finalize_queue'' ''dac_finalize_queue'',
     DEFINE_FIELD ''oom_info'' ''oom_history'',
     DEFINE_ARRAY_FIELD ''interesting_data_per_heap'' ''size_t'' ''NUM_GC_DATA_POINTS'',
     DEFINE_ARRAY_FIELD ''compact_reasons_per_heap'' ''size_t'' ''MAX_COMPACT_REASONS_COUNT'',
     DEFINE_ARRAY_FIELD ''expand_mechanisms_per_heap'' ''size_t'' ''MAX_EXPAND_MECHANISMS_COUNT'',
     DEFINE_ARRAY_FIELD ''interesting_mechanism_bits_per_heap'' ''size_t''
        ''MAX_GC_MECHANISM_BITS_COUNT'',
     DEFINE_FIELD ''internal_root_array'' ''uint8_t*'',
     DEFINE_FIELD ''internal_root_array_index'' ''size_t'',
     DEFINE_FIELD ''heap_analyze_success'' ''BOOL'',
     DEFINE_FIELD ''card_table'' ''uint32_t*''] \<and>
   take 12 (field_table cfg) = take 12 (field_table cfg') \<and>
   list_all is_real (take 12 (field_table cfg)) \<and>
   length (field_table cfg) = 18"
  by (simp add: length_field_table) (simp add: field_table_unfold)

text \<open>
  C10. With \<open>ALL_FIELDS\<close> and \<open>BACKGROUND_GC\<close> both undefined, \<open>USE_REGIONS\<close> has no effect:
  the tables with it defined and undefined are the same, with placeholders in all six
  conditional slots.
\<close>

theorem regions_switch_masked:
  "field_table \<lparr>all_fields = False, background_gc = False, use_regions = True\<rparr> =
     field_table \<lparr>all_fields = False, background_gc = False, use_regions = False\<rparr> \<and>
   drop 12 (field_table \<lparr>all_fields = False, background_gc = False, use_regions = r\<rparr>) =
     replicate 6 DEFINE_MISSING_FIELD \<and>
   length (field_table \<lparr>all_fields = False, background_gc = False, use_regions = r\<rparr>) = 18"
  by (simp add: length_field_table) (simp add: field_table_unfold replicate_missing)

end
